theory Spec2Isabelle
  imports Main "HOL-Library.Multiset"
begin

section \<open>React nodes\<close>

text \<open>
  The component of \<^verbatim>\<open>src/src/html.jsx\<close> returns a React element tree. An element
  has a tag, its props in the order the JSX writes them, the raw markup of its
  \<^verbatim>\<open>dangerouslySetInnerHTML\<close> prop (if it has one) and its children. A child
  expression \<^verbatim>\<open>{e}\<close> may hold an element, a string, an array of nodes, or
  \<^verbatim>\<open>undefined\<close>, which React renders as nothing.
\<close>

datatype node =
    Element string "(string \<times> string) list" "string option" "node list"
  | Text string
  | Nodes "node list"
  | Undefined

fun tag_of :: "node \<Rightarrow> string option" where
  "tag_of (Element t ps h cs) = Some t"
| "tag_of n = None"

fun attr :: "string \<Rightarrow> node \<Rightarrow> string option" where
  "attr k (Element t ps h cs) = map_of ps k"
| "attr k n = None"

fun inner_html :: "node \<Rightarrow> string option" where
  "inner_html (Element t ps h cs) = h"
| "inner_html n = None"

fun children_of :: "node \<Rightarrow> node list" where
  "children_of (Element t ps h cs) = cs"
| "children_of n = []"

text \<open>
  The elements of a tree in document order. Arrays are flattened, strings and
  \<^verbatim>\<open>undefined\<close> hold no element; raw markup is a string of its element and
  is not looked into here (see \<open>page_elements\<close> below for the page).
\<close>

fun elements :: "node \<Rightarrow> node list" where
  "elements (Element t ps h cs) = Element t ps h cs # concat (map elements cs)"
| "elements (Text s) = []"
| "elements (Nodes ns) = concat (map elements ns)"
| "elements Undefined = []"

definition count_elements :: "(node \<Rightarrow> bool) \<Rightarrow> node \<Rightarrow> nat" where
  "count_elements P n = length (filter P (elements n))"

section \<open>Module state: the inlined stylesheet\<close>

text \<open>
  Lines 8 to 17 run once when the module is loaded. \<^verbatim>\<open>require\<close> of the raw
  stylesheet either yields its text or throws; the outcome is a parameter, \<open>Inl\<close>
  being the thrown error. The \<^verbatim>\<open>catch\<close> clause logs the error and leaves
  \<^verbatim>\<open>inlinedStyles\<close> at its initial value, the empty string.
\<close>

datatype js_error = Error string

record module_state =
  inlinedStyles :: string
  console :: "js_error list"

definition load_module :: "string option \<Rightarrow> js_error + string \<Rightarrow> module_state" where
  "load_module node_env styles_css =
     (if node_env = Some ''production'' then
        (case styles_css of
           Inr css_text \<Rightarrow> \<lparr>inlinedStyles = css_text, console = []\<rparr>
         | Inl e \<Rightarrow> \<lparr>inlinedStyles = '''', console = [e]\<rparr>)
      else \<lparr>inlinedStyles = '''', console = []\<rparr>)"

section \<open>The HTML component\<close>

record props =
  headComponents :: node
  body :: string
  postBodyComponents :: node

text \<open>Lines 21 to 29: the local \<^verbatim>\<open>css\<close>, left undefined outside production.\<close>

definition css :: "string option \<Rightarrow> module_state \<Rightarrow> node" where
  "css node_env m =
     (if node_env = Some ''production'' then
        Element ''style'' [(''id'', ''gatsby-inlined-css'')] (Some (inlinedStyles m)) []
      else Undefined)"

text \<open>Lines 30 to 53: the returned tree.\<close>

definition render :: "string option \<Rightarrow> module_state \<Rightarrow> props \<Rightarrow> node" where
  "render node_env m p =
     Element ''html'' [(''lang'', ''en'')] None
       [Element ''head'' [] None
          [Element ''meta'' [(''charSet'', ''utf-8'')] None [],
           Element ''meta''
             [(''name'', ''viewport''),
              (''content'', ''width=device-width, initial-scale=1.0'')] None [],
           headComponents p,
           Element ''link''
             [(''rel'', ''shortcut icon''), (''type'', ''image/png''),
              (''href'', ''https://raw.githubusercontent.com/Akkatecture/Documentation/master/src/favicon.png'')]
             None [],
           Element ''link''
             [(''rel'', ''stylesheet''),
              (''href'', ''https://cdn.jsdelivr.net/npm/docsearch.js@2/dist/cdn/docsearch.min.css'')]
             None [],
           Element ''script''
             [(''type'', ''text/javascript''),
              (''src'', ''https://cdn.jsdelivr.net/npm/docsearch.js@2/dist/cdn/docsearch.min.js'')]
             None [],
           css node_env m],
        Element ''body'' [] None
          [Element ''div'' [(''id'', ''___gatsby'')] (Some (body p)) [],
           postBodyComponents p]]"

text \<open>One page build: the module is loaded, then the component is rendered.\<close>

definition render_page :: "string option \<Rightarrow> js_error + string \<Rightarrow> props \<Rightarrow> node" where
  "render_page node_env styles_css p = render node_env (load_module node_env styles_css) p"

section \<open>The elements the properties speak of\<close>

definition is_inlined_style :: "node \<Rightarrow> bool" where
  "is_inlined_style n =
     (tag_of n = Some ''style'' \<and> attr ''id'' n = Some ''gatsby-inlined-css'')"




definition head_of :: "node \<Rightarrow> node" where
  "head_of doc = (case children_of doc of h # rest \<Rightarrow> h | [] \<Rightarrow> Undefined)"

definition body_of :: "node \<Rightarrow> node" where
  "body_of doc = (case children_of doc of h # b # rest \<Rightarrow> b | _ \<Rightarrow> Undefined)"


section \<open>The page: raw markup and text\<close>

text \<open>
  The component hands raw markup on without parsing it; which elements that markup
  brings to the page is decided by whoever reads the page. A reader gives, for the tag
  of the carrying element and its raw markup, the elements the markup brings, in
  document order. The elements of the page are those of the tree together with those
  its raw markup brings under the reader.
\<close>

type_synonym reader = "string \<Rightarrow> string \<Rightarrow> node list"

fun page_elements :: "reader \<Rightarrow> node \<Rightarrow> node list" where
  "page_elements rd (Element t ps h cs) =
     Element t ps h cs
     # (case h of None \<Rightarrow> [] | Some raw \<Rightarrow> rd t raw)
     @ concat (map (page_elements rd) cs)"
| "page_elements rd (Text s) = []"
| "page_elements rd (Nodes ns) = concat (map (page_elements rd) ns)"
| "page_elements rd Undefined = []"

definition count_page :: "reader \<Rightarrow> (node \<Rightarrow> bool) \<Rightarrow> node \<Rightarrow> nat" where
  "count_page rd P n = length (filter P (page_elements rd n))"

definition raw_count :: "reader \<Rightarrow> (node \<Rightarrow> bool) \<Rightarrow> string \<Rightarrow> string \<Rightarrow> nat" where
  "raw_count rd P t raw = length (filter P (rd t raw))"


text \<open>
  The text of the page. React writes a string child with the five characters
  \<^verbatim>\<open>" & ' < >\<close> replaced by character references, the raw markup of an element as
  it is, and \<^verbatim>\<open>undefined\<close> as nothing. How the start tag and the end tag of an
  element are written is left open: \<open>st\<close> and \<open>et\<close> are parameters.
\<close>

fun escape_char :: "char \<Rightarrow> string" where
  "escape_char c =
     (if c = CHR 0x22 then ''&quot;''
      else if c = CHR 0x26 then ''&amp;''
      else if c = CHR 0x27 then ''&#x27;''
      else if c = CHR 0x3C then ''&lt;''
      else if c = CHR 0x3E then ''&gt;''
      else [c])"

definition escape_html :: "string \<Rightarrow> string" where
  "escape_html s = concat (map escape_char s)"

fun to_markup ::
  "(string \<Rightarrow> (string \<times> string) list \<Rightarrow> string) \<Rightarrow> (string \<Rightarrow> string) \<Rightarrow> node \<Rightarrow> string" where
  "to_markup st et (Element t ps h cs) =
     st t ps
     @ (case h of Some raw \<Rightarrow> raw | None \<Rightarrow> concat (map (to_markup st et) cs))
     @ et t"
| "to_markup st et (Text s) = escape_html s"
| "to_markup st et (Nodes ns) = concat (map (to_markup st et) ns)"
| "to_markup st et Undefined = []"

text \<open>
  One way of writing tags and one reader, for concrete pages: tags in the plain form of
  HTML, and a reader that knows the markup of a single paragraph and takes any other
  raw markup for text.
\<close>

definition plain_start_tag :: "string \<Rightarrow> (string \<times> string) list \<Rightarrow> string" where
  "plain_start_tag t ps =
     ''<'' @ t
     @ concat (map (\<lambda>(k, v). '' '' @ k @ ''='' @ [CHR 0x22] @ escape_html v @ [CHR 0x22]) ps)
     @ ''>''"

definition plain_end_tag :: "string \<Rightarrow> string" where
  "plain_end_tag t = ''</'' @ t @ ''>''"

definition paragraph_reader :: reader where
  "paragraph_reader t raw =
     (if t = ''div'' \<and> raw = ''<p>hi</p>''
      then [Element ''p'' [] None [Text ''hi'']] else [])"

section \<open>Traversal of the rendered page\<close>

text \<open>
  Which elements of each kind the page holds, in document order: those of the supplied
  head fragment, the shell's own with what its stylesheet text brings, those the body
  markup brings, those of the supplied post-body fragment.
\<close>

lemma inlined_style_page:
  "filter is_inlined_style (page_elements rd (render node_env m p)) =
     filter is_inlined_style (page_elements rd (headComponents p))
     @ (if node_env = Some ''production''
        then Element ''style'' [(''id'', ''gatsby-inlined-css'')] (Some (inlinedStyles m)) []
             # filter is_inlined_style (rd ''style'' (inlinedStyles m))
        else [])
     @ filter is_inlined_style (rd ''div'' (body p))
     @ filter is_inlined_style (page_elements rd (postBodyComponents p))"
  by (simp add: render_def css_def is_inlined_style_def)







text \<open>The page holds at least the elements of the tree, whatever the reader.\<close>

lemma filter_concat_le:
  assumes "\<And>c. c \<in> set cs \<Longrightarrow> length (filter P (f c)) \<le> length (filter P (g c))"
  shows "length (filter P (concat (map f cs))) \<le> length (filter P (concat (map g cs)))"
  using assms
proof (induction cs)
  case Nil
  then show ?case by simp
next
  case (Cons c cs)
  have "length (filter P (f c)) \<le> length (filter P (g c))"
    using Cons.prems by simp
  moreover have "length (filter P (concat (map f cs))) \<le> length (filter P (concat (map g cs)))"
    using Cons.IH Cons.prems by simp
  ultimately show ?case by simp
qed

lemma tree_elements_in_page:
  "count_elements P n \<le> count_page rd P n"
  unfolding count_elements_def count_page_def
proof (induction n)
  case (Element t ps h cs)
  have "length (filter P (concat (map elements cs)))
          \<le> length (filter P (concat (map (page_elements rd) cs)))"
    by (rule filter_concat_le) (rule Element.IH)
  then show ?case by simp
next
  case (Text s)
  show ?case by simp
next
  case (Nodes ns)
  show ?case using filter_concat_le [of ns P elements "page_elements rd"] Nodes.IH by simp
next
  case Undefined
  show ?case by simp
qed



lemma load_module_development:
  "node_env \<noteq> Some ''production'' \<Longrightarrow>
     load_module node_env styles_css = \<lparr>inlinedStyles = [], console = []\<rparr>"
  by (simp add: load_module_def)

section \<open>Inlined stylesheet\<close>







text \<open>
  Claim C3, as the code has it. Outside production mode \<^verbatim>\<open>css\<close> stays undefined, so
  the shell renders no inlined-style element, whatever the stylesheet read would give;
  the page holds none when none is brought by the head fragment, the body markup or the
  post-body fragment.
\<close>

theorem development_no_inlined_style:
  assumes "node_env \<noteq> Some ''production''"
    and "count_page rd is_inlined_style (headComponents p) = 0"
    and "raw_count rd is_inlined_style ''div'' (body p) = 0"
    and "count_page rd is_inlined_style (postBodyComponents p) = 0"
  shows "count_page rd is_inlined_style (render_page node_env styles_css p) = 0"
  using assms inlined_style_page [of rd node_env "load_module node_env styles_css" p]
  by (simp add: render_page_def count_page_def raw_count_def)

theorem development_no_inlined_style_witness:
  "Some ''development'' \<noteq> Some ''production'' \<and>
   count_page paragraph_reader is_inlined_style (Text ''<title>Docs</title>'') = 0 \<and>
   raw_count paragraph_reader is_inlined_style ''div'' ''<p>hi</p>'' = 0 \<and>
   count_page paragraph_reader is_inlined_style
     (Nodes [Element ''script'' [(''src'', ''/app.js'')] None []]) = 0 \<and>
   count_page paragraph_reader is_inlined_style
     (render_page (Some ''development'') (Inr ''body{margin:0}'')
        \<lparr>headComponents = Text ''<title>Docs</title>'', body = ''<p>hi</p>'',
         postBodyComponents = Nodes [Element ''script'' [(''src'', ''/app.js'')] None []]\<rparr>) = 0"
  using development_no_inlined_style
    [of "Some ''development''" paragraph_reader
        "\<lparr>headComponents = Text ''<title>Docs</title>'', body = ''<p>hi</p>'',
          postBodyComponents = Nodes [Element ''script'' [(''src'', ''/app.js'')] None []]\<rparr>"
        "Inr ''body{margin:0}''"]
  by (simp add: count_page_def raw_count_def paragraph_reader_def is_inlined_style_def)

text \<open>
  The claim as stated, regardless of the fragments, fails when the head fragment is
  itself an inlined-style element.
\<close>

theorem development_style_from_fragment:
  "count_elements is_inlined_style
     (render_page (Some ''development'') (Inr ''body{margin:0}'')
        \<lparr>headComponents =
           Element ''style'' [(''id'', ''gatsby-inlined-css'')] (Some ''a{color:red}'') [],
         body = ''<p>hi</p>'', postBodyComponents = Undefined\<rparr>) = 1"
  by (simp add: render_page_def render_def css_def load_module_def count_elements_def
      is_inlined_style_def)

section \<open>Fixed head elements\<close>




section \<open>Composition of the document\<close>

text \<open>
  Claim C5. The document is an \<^verbatim>\<open>html\<close> element of a head and a body. The head
  is made of the charset meta, the viewport meta, the favicon link, the search-widget
  stylesheet and script, the supplied head fragment and the \<^verbatim>\<open>css\<close> slot, which
  is the inlined style block in production mode and undefined otherwise. The body is the
  element carrying the supplied body markup as raw HTML, followed by the supplied
  post-body fragment.
\<close>

theorem render_composition:
  "tag_of (render node_env m p) = Some ''html'' \<and>
   map tag_of (children_of (render node_env m p)) = [Some ''head'', Some ''body''] \<and>
   mset (children_of (head_of (render node_env m p))) =
     {# Element ''meta'' [(''charSet'', ''utf-8'')] None [],
        Element ''meta''
          [(''name'', ''viewport''),
           (''content'', ''width=device-width, initial-scale=1.0'')] None [],
        Element ''link''
          [(''rel'', ''shortcut icon''), (''type'', ''image/png''),
           (''href'', ''https://raw.githubusercontent.com/Akkatecture/Documentation/master/src/favicon.png'')]
          None [],
        Element ''link''
          [(''rel'', ''stylesheet''),
           (''href'', ''https://cdn.jsdelivr.net/npm/docsearch.js@2/dist/cdn/docsearch.min.css'')]
          None [],
        Element ''script''
          [(''type'', ''text/javascript''),
           (''src'', ''https://cdn.jsdelivr.net/npm/docsearch.js@2/dist/cdn/docsearch.min.js'')]
          None [],
        headComponents p,
        (if node_env = Some ''production''
         then Element ''style'' [(''id'', ''gatsby-inlined-css'')] (Some (inlinedStyles m)) []
         else Undefined) #} \<and>
   children_of (body_of (render node_env m p)) =
     [Element ''div'' [(''id'', ''___gatsby'')] (Some (body p)) [], postBodyComponents p]"
  by (simp add: render_def css_def head_of_def body_of_def)

text \<open>
  Claim C6, as the code has it. The body markup is the raw HTML of the wrapper, the
  first child of the body element, and stands in the text of the page as supplied. The
  head fragment is placed unchanged as the third child of the head element, and the
  post-body fragment unchanged as the child of the body element after the wrapper; in
  the text of the page they stand at these places as React writes them, elements as
  markup and a bare string as escaped text. This holds for every fragment, empty or not.
\<close>

theorem fragments_verbatim:
  "(let doc = render node_env m p; h = head_of doc; b = body_of doc in
      children_of doc = [h, b] \<and>
      tag_of h = Some ''head'' \<and> tag_of b = Some ''body'' \<and>
      length (children_of h) = 7 \<and>
      children_of h ! 2 = headComponents p \<and>
      children_of b =
        [Element ''div'' [(''id'', ''___gatsby'')] (Some (body p)) [], postBodyComponents p] \<and>
      to_markup st et doc =
        st ''html'' [(''lang'', ''en'')] @ to_markup st et h @ to_markup st et b @ et ''html'' \<and>
      to_markup st et h =
        st ''head'' []
        @ concat (map (to_markup st et) (take 2 (children_of h)))
        @ to_markup st et (headComponents p)
        @ concat (map (to_markup st et) (drop 3 (children_of h)))
        @ et ''head'' \<and>
      to_markup st et b =
        st ''body'' []
        @ st ''div'' [(''id'', ''___gatsby'')] @ body p @ et ''div''
        @ to_markup st et (postBodyComponents p)
        @ et ''body'') \<and>
   to_markup st et (Text s) = escape_html s"
  by (simp add: render_def head_of_def body_of_def Let_def)

text \<open>
  The claim as stated fails for a head fragment that is a string of markup: at its place
  in the head the page holds the escaped text, not the markup that was supplied.
\<close>

theorem string_head_fragment_escaped:
  "to_markup plain_start_tag plain_end_tag
     (children_of
        (head_of
           (render (Some ''development'') \<lparr>inlinedStyles = [], console = []\<rparr>
              \<lparr>headComponents = Text ''<title>Docs</title>'', body = ''<p>hi</p>'',
               postBodyComponents = Undefined\<rparr>)) ! 2) =
   ''&lt;title&gt;Docs&lt;/title&gt;''"
  by (simp add: render_def head_of_def escape_html_def)

section \<open>Determinism\<close>

text \<open>
  Claim C7, as the code has it. The document is a function of the build mode, the
  fragments and, in production mode, the module's \<^verbatim>\<open>inlinedStyles\<close>, which holds
  what the stylesheet read gave. Two renders that agree on these give the same document;
  outside production mode the build mode and the fragments alone decide it.
\<close>

theorem render_determined:
  assumes "node_env \<noteq> Some ''production'' \<or> inlinedStyles m1 = inlinedStyles m2"
  shows "render node_env m1 p = render node_env m2 p"
  using assms by (auto simp add: render_def css_def)

theorem render_determined_witness:
  "inlinedStyles \<lparr>inlinedStyles = ''body{margin:0}'', console = []\<rparr> =
     inlinedStyles \<lparr>inlinedStyles = ''body{margin:0}'', console = [Error ''earlier'']\<rparr> \<and>
   render (Some ''production'') \<lparr>inlinedStyles = ''body{margin:0}'', console = []\<rparr>
     \<lparr>headComponents = Text ''<title>Docs</title>'', body = ''<p>hi</p>'',
      postBodyComponents = Undefined\<rparr> =
   render (Some ''production'')
     \<lparr>inlinedStyles = ''body{margin:0}'', console = [Error ''earlier'']\<rparr>
     \<lparr>headComponents = Text ''<title>Docs</title>'', body = ''<p>hi</p>'',
      postBodyComponents = Undefined\<rparr>"
  using render_determined
    [of "Some ''production''" "\<lparr>inlinedStyles = ''body{margin:0}'', console = []\<rparr>"
        "\<lparr>inlinedStyles = ''body{margin:0}'', console = [Error ''earlier'']\<rparr>"
        "\<lparr>headComponents = Text ''<title>Docs</title>'', body = ''<p>hi</p>'',
          postBodyComponents = Undefined\<rparr>"]
  by simp

text \<open>
  The claim as stated fails: two production renders of the same fragments differ when
  the stylesheet that was read differs.
\<close>

theorem render_depends_on_stylesheet:
  "render_page (Some ''production'') (Inr ''body{margin:0}'')
     \<lparr>headComponents = Undefined, body = ''<p>hi</p>'', postBodyComponents = Undefined\<rparr> \<noteq>
   render_page (Some ''production'') (Inr ''body{margin:8px}'')
     \<lparr>headComponents = Undefined, body = ''<p>hi</p>'', postBodyComponents = Undefined\<rparr>"
  by (simp add: render_page_def render_def css_def load_module_def)

section \<open>The shell\<close>

text \<open>
  Claim C8. With the three fragments empty strings the document is still the shell: an
  \<^verbatim>\<open>html\<close> root with exactly a head and a body as its children, and no other
  head or body element in the tree.
\<close>

theorem empty_fragments_shell:
  "tag_of (render_page node_env styles_css
      \<lparr>headComponents = Text [], body = [], postBodyComponents = Text []\<rparr>) = Some ''html'' \<and>
   map tag_of (children_of (render_page node_env styles_css
      \<lparr>headComponents = Text [], body = [], postBodyComponents = Text []\<rparr>)) =
     [Some ''head'', Some ''body''] \<and>
   count_elements (\<lambda>n. tag_of n = Some ''head'') (render_page node_env styles_css
      \<lparr>headComponents = Text [], body = [], postBodyComponents = Text []\<rparr>) = 1 \<and>
   count_elements (\<lambda>n. tag_of n = Some ''body'') (render_page node_env styles_css
      \<lparr>headComponents = Text [], body = [], postBodyComponents = Text []\<rparr>) = 1"
  by (simp add: render_page_def render_def css_def count_elements_def)

text \<open>
  Claim C9. The first child of the body is a \<^verbatim>\<open>div\<close> whose only prop is the id
  \<^verbatim>\<open>___gatsby\<close>; it carries the supplied body markup as its raw HTML and has no
  children. The only other child of the body is the post-body fragment, so the body
  markup is never a direct child of the body, and the wrapper is there for every body
  markup, the empty one included.
\<close>

theorem body_in_gatsby_wrapper:
  "children_of (body_of (render node_env m p)) =
     [Element ''div'' [(''id'', ''___gatsby'')] (Some (body p)) [], postBodyComponents p] \<and>
   tag_of (body_of (render node_env m p)) = Some ''body'' \<and>
   count_elements (\<lambda>n. attr ''id'' n = Some ''___gatsby'') (body_of (render node_env m p)) =
     1 + count_elements (\<lambda>n. attr ''id'' n = Some ''___gatsby'') (postBodyComponents p) \<and>
   children_of (body_of (render node_env m (p\<lparr>body := []\<rparr>))) =
     [Element ''div'' [(''id'', ''___gatsby'')] (Some []) [], postBodyComponents p]"
  by (simp add: render_def body_of_def count_elements_def)

text \<open>
  Claim C10. For every build mode, stylesheet read outcome and fragments a page build
  yields a document; its root is the \<^verbatim>\<open>html\<close> element with \<^verbatim>\<open>lang\<close> set to
  \<^verbatim>\<open>en\<close>, and the first child of its head is the charset meta.
\<close>

theorem render_total_lang_charset:
  "(\<exists>doc. render_page node_env styles_css p = doc \<and>
      tag_of doc = Some ''html'' \<and>
      attr ''lang'' doc = Some ''en'' \<and>
      tag_of (head_of doc) = Some ''head'' \<and>
      take 1 (children_of (head_of doc)) =
        [Element ''meta'' [(''charSet'', ''utf-8'')] None []])"
  by (simp add: render_page_def render_def head_of_def)

end
